theory Spec2Isabelle
  imports Main "HOL-Library.Word"
begin

section \<open>JavaScript strings\<close>

text \<open>
  A JavaScript string is a sequence of UTF-16 code units; \<open>length\<close>, \<open>slice\<close>,
  \<open>indexOf\<close> and the regular expressions of the source (none has the \<open>u\<close> flag) all
  work on code units. A string is therefore a list of 16-bit words, and a literal of the
  source is written \<open>js ''...''\<close>.
\<close>

type_synonym jsstring = "16 word list"

definition js :: "string \<Rightarrow> jsstring" where
  "js s = map of_char s"

text \<open>
  The characters removed by \<open>String.prototype.trim\<close> and matched by \<open>\s\<close>: ECMAScript's
  WhiteSpace (TAB, VT, FF, SP, NBSP, ZWNBSP and category Zs) and LineTerminator
  (LF, CR, LS, PS).
\<close>

definition isWhiteSpace :: "16 word \<Rightarrow> bool" where
  "isWhiteSpace c \<longleftrightarrow>
     c = 0x09 \<or> c = 0x0A \<or> c = 0x0B \<or> c = 0x0C \<or> c = 0x0D \<or> c = 0x20 \<or> c = 0xA0 \<or>
     c = 0x1680 \<or> (0x2000 \<le> c \<and> c \<le> 0x200A) \<or> c = 0x2028 \<or> c = 0x2029 \<or>
     c = 0x202F \<or> c = 0x205F \<or> c = 0x3000 \<or> c = 0xFEFF"

definition trimStart :: "jsstring \<Rightarrow> jsstring" where
  "trimStart s = dropWhile isWhiteSpace s"

definition trimEnd :: "jsstring \<Rightarrow> jsstring" where
  "trimEnd s = rev (dropWhile isWhiteSpace (rev s))"

definition trim :: "jsstring \<Rightarrow> jsstring" where
  "trim s = trimEnd (trimStart s)"

text \<open>\<open>s.startsWith(m)\<close> and \<open>s.includes(m)\<close>: \<open>m\<close> occurs in \<open>s\<close> as a substring.\<close>

fun startsWith :: "jsstring \<Rightarrow> jsstring \<Rightarrow> bool" where
  "startsWith s [] = True"
| "startsWith [] (m # ms) = False"
| "startsWith (c # cs) (m # ms) = (c = m \<and> startsWith cs ms)"

fun includes_str :: "jsstring \<Rightarrow> jsstring \<Rightarrow> bool" where
  "includes_str [] m = (m = [])"
| "includes_str (c # cs) m = (startsWith (c # cs) m \<or> includes_str cs m)"

text \<open>\<open>s.split("\n")\<close>: never empty, \<open>"".split("\n")\<close> is \<open>[""]\<close>.\<close>

fun split_nl :: "jsstring \<Rightarrow> jsstring list" where
  "split_nl [] = [[]]"
| "split_nl (c # cs) =
     (if c = 0x0A then [] # split_nl cs
      else (c # hd (split_nl cs)) # tl (split_nl cs))"

text \<open>\<open>lines.join("\n")\<close>.\<close>

fun join_nl :: "jsstring list \<Rightarrow> jsstring" where
  "join_nl [] = []"
| "join_nl [l] = l"
| "join_nl (l # m # ls) = l @ 0x0A # join_nl (m # ls)"

section \<open>The regular expressions and the sanitizers\<close>

text \<open>\<open>LINE_ENDINGS: /\r\n/g\<close> replaced by \<open>"\n"\<close>, scanning from the left.\<close>

fun replace_LINE_ENDINGS :: "jsstring \<Rightarrow> jsstring" where
  "replace_LINE_ENDINGS [] = []"
| "replace_LINE_ENDINGS [c] = [c]"
| "replace_LINE_ENDINGS (c # d # cs) =
     (if c = 0x0D \<and> d = 0x0A then 0x0A # replace_LINE_ENDINGS cs
      else c # replace_LINE_ENDINGS (d # cs))"

text \<open>\<open>STANDALONE_CR: /\r/g\<close> replaced by \<open>""\<close>.\<close>

definition replace_STANDALONE_CR :: "jsstring \<Rightarrow> jsstring" where
  "replace_STANDALONE_CR s = filter (\<lambda>c. c \<noteq> 0x0D) s"

text \<open>\<open>NON_ASCII_CONTROL: /[\x00-\x09\x0B-\x1F\x7F-\uFFFF]/g\<close> replaced by \<open>""\<close>.\<close>

definition NON_ASCII_CONTROL :: "16 word \<Rightarrow> bool" where
  "NON_ASCII_CONTROL c \<longleftrightarrow> c \<le> 0x09 \<or> (0x0B \<le> c \<and> c \<le> 0x1F) \<or> 0x7F \<le> c"

definition replace_NON_ASCII_CONTROL :: "jsstring \<Rightarrow> jsstring" where
  "replace_NON_ASCII_CONTROL s = filter (\<lambda>c. \<not> NON_ASCII_CONTROL c) s"

text \<open>
  \<open>PROMPT_CHARS: /[%$#>]\s*$/\<close> replaced by \<open>""\<close>. The expression is not global and
  \<open>$\<close> is the end of the input (no \<open>m\<close> flag): the leftmost position is taken where one
  of the four characters stands and only white space follows up to the end; the match,
  which runs to the end, is removed.
\<close>

definition PROMPT_CHAR :: "16 word \<Rightarrow> bool" where
  "PROMPT_CHAR c \<longleftrightarrow> c = 0x25 \<or> c = 0x24 \<or> c = 0x23 \<or> c = 0x3E"

fun replace_PROMPT_CHARS :: "jsstring \<Rightarrow> jsstring" where
  "replace_PROMPT_CHARS [] = []"
| "replace_PROMPT_CHARS (c # cs) =
     (if PROMPT_CHAR c \<and> list_all isWhiteSpace cs then []
      else c # replace_PROMPT_CHARS cs)"

definition sanitizeOutput :: "jsstring \<Rightarrow> jsstring" where
  "sanitizeOutput output =
     trim (replace_NON_ASCII_CONTROL (replace_STANDALONE_CR (replace_LINE_ENDINGS output)))"

definition sanitizeLines :: "jsstring list \<Rightarrow> jsstring list" where
  "sanitizeLines lines =
     filter (\<lambda>line. length line > 0)
       (map (\<lambda>line. trim (replace_NON_ASCII_CONTROL (replace_PROMPT_CHARS line))) lines)"

section \<open>TerminalProcess\<close>

text \<open>
  The events a TerminalProcess emits. An error is represented by its message.
  \<open>emitted\<close> below is the log of the \<open>this.emit(...)\<close> calls of the process, oldest first.
\<close>

datatype event = Line jsstring | Completed | Continue | Error jsstring

text \<open>
  The fields of the class, followed by the variables the data handler of \<open>run\<close> closes
  over: the two markers, \<open>outputStarted\<close>, \<open>outputBuffer\<close>, and whether the handler is
  still subscribed (\<open>outputHandler.dispose()\<close> not yet called).
\<close>

record TerminalProcess =
  buffer :: jsstring
  cooldownTimeout :: nat
  fullOutput :: jsstring
  isListening :: bool
  lastActivityTime :: nat
  lastRetrievedIndex :: nat
  waitForShellIntegration :: bool
  startMarker :: jsstring
  endMarker :: jsstring
  outputStarted :: bool
  outputBuffer :: jsstring
  handlerAttached :: bool
  emitted :: "event list"

definition PROCESS_HOT_TIMEOUT_NORMAL :: nat where
  "PROCESS_HOT_TIMEOUT_NORMAL = 2000"

definition PROCESS_HOT_TIMEOUT_COMPILING :: nat where
  "PROCESS_HOT_TIMEOUT_COMPILING = 15000"

text \<open>\<open>new TerminalProcess()\<close>: the field initialisers; \<open>run\<close> has not been called.\<close>

definition new_TerminalProcess :: TerminalProcess where
  "new_TerminalProcess =
     \<lparr> buffer = [], cooldownTimeout = PROCESS_HOT_TIMEOUT_NORMAL, fullOutput = [],
       isListening = True, lastActivityTime = 0, lastRetrievedIndex = 0,
       waitForShellIntegration = True, startMarker = [], endMarker = [],
       outputStarted = False, outputBuffer = [], handlerAttached = False, emitted = [] \<rparr>"

definition emit :: "event \<Rightarrow> TerminalProcess \<Rightarrow> TerminalProcess" where
  "emit e p = p\<lparr>emitted := emitted p @ [e]\<rparr>"

text \<open>The getter \<open>isHot\<close>; \<open>now\<close> is \<open>Date.now()\<close> at the time of the query.\<close>

definition isHot :: "nat \<Rightarrow> TerminalProcess \<Rightarrow> bool" where
  "isHot now p =
     (if lastActivityTime p = 0 then False
      else int now - int (lastActivityTime p) < int (cooldownTimeout p))"

definition sanitizeRemainingBuffer :: "jsstring \<Rightarrow> jsstring" where
  "sanitizeRemainingBuffer output = trimEnd (join_nl (sanitizeLines (split_nl output)))"

definition emitRemainingBufferIfListening :: "TerminalProcess \<Rightarrow> TerminalProcess" where
  "emitRemainingBufferIfListening p =
     (if buffer p \<noteq> [] \<and> isListening p then
        let remainingBuffer = sanitizeRemainingBuffer (buffer p);
            p1 = (if remainingBuffer \<noteq> [] then emit (Line remainingBuffer) p else p)
        in p1\<lparr>buffer := [], lastRetrievedIndex := length (fullOutput p1)\<rparr>
      else p)"

definition updateHotState :: "nat \<Rightarrow> bool \<Rightarrow> TerminalProcess \<Rightarrow> TerminalProcess" where
  "updateHotState now isCompiling p =
     p\<lparr>lastActivityTime := now,
       cooldownTimeout :=
         (if isCompiling then PROCESS_HOT_TIMEOUT_COMPILING else PROCESS_HOT_TIMEOUT_NORMAL)\<rparr>"

text \<open>
  \<open>continue()\<close>. \<open>removeAllListeners("line")\<close> changes the subscribers, which are not
  part of the process's own state; the emitted events are logged whoever listens.
\<close>

definition continue :: "TerminalProcess \<Rightarrow> TerminalProcess" where
  "continue p = emit Continue ((emitRemainingBufferIfListening p)\<lparr>isListening := False\<rparr>)"

text \<open>\<open>getUnretrievedOutput()\<close>: the returned string and the process afterwards.\<close>

definition getUnretrievedOutput :: "TerminalProcess \<Rightarrow> jsstring \<times> TerminalProcess" where
  "getUnretrievedOutput p =
     (let unretrieved = drop (lastRetrievedIndex p) (fullOutput p)
      in (sanitizeRemainingBuffer unretrieved, p\<lparr>lastRetrievedIndex := length (fullOutput p)\<rparr>))"

text \<open>
  The private method \<open>emitIfEol\<close>, the only writer of \<open>buffer\<close> besides the flush above.
  Nothing in the class calls it. \<open>indexOf_nl\<close> is \<open>buffer.indexOf("\n")\<close>, with
  \<open>None\<close> for \<open>-1\<close>.
\<close>

fun indexOf_nl :: "jsstring \<Rightarrow> nat option" where
  "indexOf_nl [] = None"
| "indexOf_nl (c # cs) = (if c = 0x0A then Some 0 else map_option Suc (indexOf_nl cs))"

lemma indexOf_nl_less: "indexOf_nl s = Some i \<Longrightarrow> i < length s"
  by (induction s arbitrary: i) (auto split: if_splits)

function emitIfEol_loop :: "TerminalProcess \<Rightarrow> TerminalProcess" where
  "emitIfEol_loop p =
     (case indexOf_nl (buffer p) of
        None \<Rightarrow> p
      | Some lineEndIndex \<Rightarrow>
          emitIfEol_loop
            ((emit (Line (sanitizeOutput (take lineEndIndex (buffer p)))) p)
               \<lparr>buffer := drop (lineEndIndex + 1) (buffer p)\<rparr>))"
  by pat_completeness auto
termination
  by (relation "measure (\<lambda>p. length (buffer p))")
     (auto simp: emit_def dest: indexOf_nl_less)

definition emitIfEol :: "jsstring \<Rightarrow> TerminalProcess \<Rightarrow> TerminalProcess" where
  "emitIfEol chunk p = emitIfEol_loop (p\<lparr>buffer := replace_LINE_ENDINGS (buffer p @ chunk)\<rparr>)"

text \<open>
  Two library functions the class calls are not part of the repository and are taken as
  parameters: \<open>stripAnsi\<close> of the package strip-ansi, and \<open>String.prototype.toLowerCase\<close>
  (Unicode case mapping). \<open>plain\<close> is what both do to text that has no escape sequence
  and no cased character other than lower-case letters: nothing.
\<close>

record library =
  stripAnsi :: "jsstring \<Rightarrow> jsstring"
  toLowerCase :: "jsstring \<Rightarrow> jsstring"

definition plain :: library where
  "plain = \<lparr> stripAnsi = (\<lambda>s. s), toLowerCase = (\<lambda>s. s) \<rparr>"

definition compilingMarkers :: "jsstring list" where
  "compilingMarkers =
     map js [''compiling'', ''building'', ''bundling'', ''transpiling'', ''generating'',
             ''starting'']"

definition markerNullifiers :: "jsstring list" where
  "markerNullifiers =
     map js [''compiled'', ''success'', ''finish'', ''complete'', ''succeed'', ''done'',
             ''end'', ''stop'', ''exit'', ''terminate'', ''error'', ''fail'']"

text \<open>\<open>processOutput(data)\<close>; \<open>now\<close> is the \<open>Date.now()\<close> read by \<open>updateHotState\<close>.\<close>

definition processOutput :: "library \<Rightarrow> nat \<Rightarrow> jsstring \<Rightarrow> TerminalProcess \<Rightarrow> TerminalProcess" where
  "processOutput lib now data p =
     (if trim data = [] then p
      else
        let sanitizedOutput = sanitizeOutput data;
            p1 = (if sanitizedOutput \<noteq> [] then
                    let p0 = p\<lparr>fullOutput := fullOutput p @ sanitizedOutput @ [0x0A]\<rparr>
                    in (if isListening p0 then emit (Line sanitizedOutput) p0 else p0)
                  else p);
            isCompiling =
              (list_ex (\<lambda>marker. includes_str (toLowerCase lib data) (toLowerCase lib marker))
                 compilingMarkers \<and>
               \<not> list_ex (\<lambda>nullifier. includes_str (toLowerCase lib data) (toLowerCase lib nullifier))
                 markerNullifiers)
        in updateHotState now isCompiling p1)"

text \<open>
  \<open>run(terminal, command)\<close>. The markers are \<open>START_CMD_\<close> and \<open>END_CMD_\<close> followed by
  the clock's reading and are taken as given. The call subscribes the data handler with
  \<open>outputStarted = false\<close> and \<open>outputBuffer = ""\<close>; sending the wrapped command to the
  terminal changes nothing of the process.
\<close>

definition run :: "jsstring \<Rightarrow> jsstring \<Rightarrow> TerminalProcess \<Rightarrow> TerminalProcess" where
  "run startM endM p =
     p\<lparr>startMarker := startM, endMarker := endM, outputStarted := False,
       outputBuffer := [], handlerAttached := True\<rparr>"

text \<open>
  The handler \<open>run\<close> passes to \<open>terminal.onDidWriteData\<close>, called with one chunk of raw
  data. After \<open>outputHandler.dispose()\<close> it is no longer called. The lines of one chunk
  are processed within the one call; \<open>now\<close> is the clock's reading during it.
\<close>

definition onData :: "library \<Rightarrow> nat \<Rightarrow> jsstring \<Rightarrow> TerminalProcess \<Rightarrow> TerminalProcess" where
  "onData lib now data p =
     (if \<not> handlerAttached p then p
      else
        let sanitizedData = stripAnsi lib data in
        if includes_str sanitizedData (startMarker p) then p\<lparr>outputStarted := True\<rparr>
        else if includes_str sanitizedData (endMarker p) then
          let p1 = p\<lparr>outputStarted := False\<rparr>;
              p2 = (if outputBuffer p1 \<noteq> [] then processOutput lib now (outputBuffer p1) p1
                    else p1);
              p3 = p2\<lparr>handlerAttached := False\<rparr>
          in emit Continue (emit Completed p3)
        else if outputStarted p then
          let p1 = p\<lparr>outputBuffer := outputBuffer p @ sanitizedData\<rparr>;
              lines = split_nl (outputBuffer p1)
          in if length lines > 1 then
               (foldl (\<lambda>q line. processOutput lib now line q) p1 (butlast lines))
                 \<lparr>outputBuffer := last lines\<rparr>
             else p1
        else p)"

text \<open>A sequence of data events, each with the clock's reading when it is handled.\<close>

definition feed :: "library \<Rightarrow> (nat \<times> jsstring) list \<Rightarrow> TerminalProcess \<Rightarrow> TerminalProcess" where
  "feed lib chunks p = foldl (\<lambda>q (now, data). onData lib now data q) p chunks"

section \<open>TerminalManager\<close>

text \<open>
  A \<open>TerminalInfo\<close> object of the registry. Objects are addressed by their \<open>id\<close>; the
  terminal handle is not modelled.
\<close>

record TerminalInfo =
  busy :: bool
  lastCommand :: jsstring

text \<open>The promise \<open>runCommand\<close> creates; settling a settled promise changes nothing.\<close>

datatype promise = Pending | Resolved | Rejected jsstring

definition resolve :: "promise \<Rightarrow> promise" where
  "resolve pr = (case pr of Pending \<Rightarrow> Resolved | _ \<Rightarrow> pr)"

definition reject :: "jsstring \<Rightarrow> promise \<Rightarrow> promise" where
  "reject e pr = (case pr of Pending \<Rightarrow> Rejected e | _ \<Rightarrow> pr)"

text \<open>
  What one call of \<open>runCommand\<close> creates: the TerminalProcess, and the state of the
  closures registered on it: the session and command they close over, which of the
  three \<open>once\<close> listeners are still registered, whether the 30 second timer is pending
  (\<open>cleanupTimeout\<close>), and the promise. The returned handle (\<open>mergePromise\<close>) is this
  object: the process with the promise's \<open>then\<close>, \<open>catch\<close> and \<open>finally\<close>.
\<close>

record Execution =
  process :: TerminalProcess
  terminalInfo :: nat
  command :: jsstring
  onceCompleted :: bool
  onceContinue :: bool
  onceError :: bool
  cleanupTimeout :: bool
  promise :: promise

text \<open>
  The state the manager works on. \<open>terminals\<close> is the store of TerminalInfo objects and
  \<open>registered\<close> the ids \<open>TerminalRegistry.getTerminal\<close> finds (the registry itself is not
  among the source files). \<open>terminalIds\<close> is the manager's Set in insertion order,
  \<open>processes\<close> its Map from session id to a process object, \<open>executions\<close> the store of
  these objects and \<open>nextRef\<close> the next unused address. \<open>disposables\<close> counts the held
  subscriptions.
\<close>

record TerminalManager =
  terminals :: "nat \<Rightarrow> TerminalInfo"
  registered :: "nat set"
  terminalIds :: "nat list"
  processes :: "nat \<rightharpoonup> nat"
  executions :: "nat \<Rightarrow> Execution"
  nextRef :: nat
  disposables :: nat

definition disposeAll :: "TerminalManager \<Rightarrow> TerminalManager" where
  "disposeAll m = m\<lparr>terminalIds := [], processes := Map.empty, disposables := 0\<rparr>"

definition getTerminals :: "bool \<Rightarrow> TerminalManager \<Rightarrow> (nat \<times> jsstring) list" where
  "getTerminals b m =
     map (\<lambda>i. (i, lastCommand (terminals m i)))
       (filter (\<lambda>i. i \<in> registered m \<and> busy (terminals m i) = b) (terminalIds m))"

definition TerminalManager_getUnretrievedOutput ::
    "nat \<Rightarrow> TerminalManager \<Rightarrow> jsstring \<times> TerminalManager" where
  "TerminalManager_getUnretrievedOutput terminalId m =
     (if terminalId \<notin> set (terminalIds m) then ([], m)
      else case processes m terminalId of
        None \<Rightarrow> ([], m)
      | Some r \<Rightarrow>
          let (out, p) = getUnretrievedOutput (process (executions m r))
          in (out, m\<lparr>executions := (executions m)(r := (executions m r)\<lparr>process := p\<rparr>)\<rparr>))"

definition isProcessHot :: "nat \<Rightarrow> nat \<Rightarrow> TerminalManager \<Rightarrow> bool" where
  "isProcessHot now terminalId m =
     (case processes m terminalId of
        None \<Rightarrow> False
      | Some r \<Rightarrow> isHot now (process (executions m r)))"

text \<open>
  The listeners \<open>runCommand\<close> registers, run when the process at address \<open>r\<close> emits the
  event. Each is registered with \<open>once\<close>. The pool registers no listener for lines. Node
  throws on an error event nobody listens to; the timer, the only emitter of errors, is
  cancelled by everything that removes the error listener.
\<close>

definition listener :: "nat \<Rightarrow> event \<Rightarrow> TerminalManager \<Rightarrow> TerminalManager" where
  "listener r e m =
     (let x = executions m r in
      case e of
        Line l \<Rightarrow> m
      | Completed \<Rightarrow>
          (if onceCompleted x then
             m\<lparr>terminals := (terminals m)
                  (terminalInfo x := (terminals m (terminalInfo x))\<lparr>busy := False\<rparr>),
               executions := (executions m)(r := x\<lparr>onceCompleted := False\<rparr>)\<rparr>
           else m)
      | Continue \<Rightarrow>
          (if onceContinue x then
             m\<lparr>executions := (executions m)
                  (r := x\<lparr>onceContinue := False, cleanupTimeout := False,
                          promise := resolve (promise x)\<rparr>)\<rparr>
           else m)
      | Error err \<Rightarrow>
          (if onceError x then
             m\<lparr>executions := (executions m)
                  (r := x\<lparr>onceError := False, cleanupTimeout := False,
                          promise := reject err (promise x)\<rparr>)\<rparr>
           else m))"

text \<open>
  A step \<open>f\<close> of the process at address \<open>r\<close>, followed by the listeners for the events
  the step emitted, in order. The listeners touch the session's flag, the timer and the
  promise only, none of which the process reads, so running them after the step is
  running them inside \<open>emit\<close>.
\<close>

definition dispatch ::
    "nat \<Rightarrow> (TerminalProcess \<Rightarrow> TerminalProcess) \<Rightarrow> TerminalManager \<Rightarrow> TerminalManager" where
  "dispatch r f m =
     (let x = executions m r;
          p = f (process x);
          m1 = m\<lparr>executions := (executions m)(r := x\<lparr>process := p\<rparr>)\<rparr>
      in foldl (\<lambda>q e. listener r e q) m1 (drop (length (emitted (process x))) (emitted p)))"

text \<open>
  \<open>runCommand(terminalInfo, command)\<close>: the handle's address and the state afterwards.
  \<open>startM\<close> and \<open>endM\<close> are the markers \<open>run\<close> derives from the clock.
\<close>

definition runCommand ::
    "jsstring \<Rightarrow> jsstring \<Rightarrow> nat \<Rightarrow> jsstring \<Rightarrow> TerminalManager \<Rightarrow> nat \<times> TerminalManager" where
  "runCommand startM endM t cmd m =
     (let r = nextRef m;
          terminalProcess = new_TerminalProcess;
          x = \<lparr> process = run startM endM (terminalProcess\<lparr>waitForShellIntegration := False\<rparr>),
                terminalInfo = t, command = cmd, onceCompleted = True, onceContinue = True,
                onceError = True, cleanupTimeout = True, promise = Pending \<rparr>
      in (r, m\<lparr>terminals := (terminals m)(t := (terminals m t)\<lparr>busy := True, lastCommand := cmd\<rparr>),
               processes := (processes m)(t \<mapsto> r),
               executions := (executions m)(r := x),
               nextRef := Suc r\<rparr>))"

text \<open>The terminal writes a chunk of data while the process at \<open>r\<close> is subscribed.\<close>

definition terminalData ::
    "library \<Rightarrow> nat \<Rightarrow> jsstring \<Rightarrow> nat \<Rightarrow> TerminalManager \<Rightarrow> TerminalManager" where
  "terminalData lib now data r m = dispatch r (onData lib now data) m"

text \<open>The 30 second timer of the execution at \<open>r\<close> fires, unless it was cleared.\<close>

definition timeoutFires :: "nat \<Rightarrow> TerminalManager \<Rightarrow> TerminalManager" where
  "timeoutFires r m =
     (let x = executions m r in
      if cleanupTimeout x then
        dispatch r (emit (Error (js ''Command execution timeout: '' @ command x)))
          (m\<lparr>executions := (executions m)(r := x\<lparr>cleanupTimeout := False\<rparr>)\<rparr>)
      else m)"

text \<open>A holder of the handle at \<open>r\<close> calls its \<open>continue()\<close>.\<close>

definition callContinue :: "nat \<Rightarrow> TerminalManager \<Rightarrow> TerminalManager" where
  "callContinue r m = dispatch r continue m"

text \<open>The things that happen to a manager after it is built.\<close>

datatype action =
    RunCommand jsstring jsstring nat jsstring
  | TerminalData nat jsstring nat
  | TimeoutFires nat
  | CallContinue nat
  | GetUnretrievedOutput nat
  | DisposeAll

fun step :: "library \<Rightarrow> action \<Rightarrow> TerminalManager \<Rightarrow> TerminalManager" where
  "step lib (RunCommand startM endM t cmd) m = snd (runCommand startM endM t cmd m)"
| "step lib (TerminalData now data r) m = terminalData lib now data r m"
| "step lib (TimeoutFires r) m = timeoutFires r m"
| "step lib (CallContinue r) m = callContinue r m"
| "step lib (GetUnretrievedOutput t) m = snd (TerminalManager_getUnretrievedOutput t m)"
| "step lib DisposeAll m = disposeAll m"

text \<open>
  \<open>new TerminalManager()\<close> on a host that has \<open>onDidStartTerminalShellExecution\<close> (one
  subscription is kept). The registry is given by its store and its ids. No process
  object is allocated yet; \<open>no_execution\<close> stands at the unused addresses.
\<close>

definition no_execution :: Execution where
  "no_execution =
     \<lparr> process = new_TerminalProcess, terminalInfo = 0, command = [], onceCompleted = False,
       onceContinue = False, onceError = False, cleanupTimeout = False, promise = Pending \<rparr>"

definition new_TerminalManager :: "(nat \<Rightarrow> TerminalInfo) \<Rightarrow> nat set \<Rightarrow> TerminalManager" where
  "new_TerminalManager store ids =
     \<lparr> terminals = store, registered = ids, terminalIds = [], processes = Map.empty,
       executions = (\<lambda>r. no_execution), nextRef = 0, disposables = 1 \<rparr>"

section \<open>Notions used in the statements\<close>

text \<open>The process is subscribed to the terminal and has seen the start marker.\<close>

definition capturing :: "TerminalProcess \<Rightarrow> bool" where
  "capturing p \<longleftrightarrow> handlerAttached p \<and> outputStarted p"

text \<open>The chunk, once stripped, contains neither marker of the process.\<close>

definition marker_free :: "library \<Rightarrow> TerminalProcess \<Rightarrow> jsstring \<Rightarrow> bool" where
  "marker_free lib p d \<longleftrightarrow>
     \<not> includes_str (stripAnsi lib d) (startMarker p) \<and>
     \<not> includes_str (stripAnsi lib d) (endMarker p)"

text \<open>Two processes agree on what they recorded and emitted, and on whether they listen.\<close>

definition same_output :: "TerminalProcess \<Rightarrow> TerminalProcess \<Rightarrow> bool" where
  "same_output p q \<longleftrightarrow>
     fullOutput p = fullOutput q \<and> emitted p = emitted q \<and> isListening p = isListening q"

text \<open>\<open>processOutput\<close> on each of the lines in turn, with the clock at \<open>0\<close>.\<close>

definition processLines :: "library \<Rightarrow> jsstring list \<Rightarrow> TerminalProcess \<Rightarrow> TerminalProcess" where
  "processLines lib ls p = foldl (\<lambda>q line. processOutput lib 0 line q) p ls"

text \<open>
  A running process: \<open>run\<close> was called on a new process, whose public field
  \<open>waitForShellIntegration\<close> the caller may have set before (the manager sets it to
  false), and since then the terminal has written chunks of data and the holder of the
  handle has called \<open>continue()\<close> or \<open>getUnretrievedOutput()\<close>, in any order.
\<close>

inductive running :: "library \<Rightarrow> TerminalProcess \<Rightarrow> bool" for lib :: library where
  started: "running lib (run startM endM (new_TerminalProcess\<lparr>waitForShellIntegration := w\<rparr>))"
| data: "running lib p \<Longrightarrow> running lib (onData lib now d p)"
| detached: "running lib p \<Longrightarrow> running lib (continue p)"
| retrieved: "running lib p \<Longrightarrow> running lib (snd (getUnretrievedOutput p))"

text \<open>
  A second instance of the library, for text whose only complete escape sequence is the
  colour code \<open>ESC [ 3 2 m\<close>: \<open>stripAnsi\<close> removes each occurrence of the five characters
  and leaves everything else, an \<open>ESC\<close> that the rest of the sequence does not follow
  included.
\<close>

fun strip_green :: "jsstring \<Rightarrow> jsstring" where
  "strip_green (a # b # c # d # e # cs) =
     (if a = 0x1B \<and> b = 0x5B \<and> c = 0x33 \<and> d = 0x32 \<and> e = 0x6D then strip_green cs
      else a # strip_green (b # c # d # e # cs))"
| "strip_green (a # cs) = a # strip_green cs"
| "strip_green [] = []"

definition green :: library where
  "green = \<lparr> stripAnsi = strip_green, toLowerCase = (\<lambda>s. s) \<rparr>"



declare emitIfEol_loop.simps [simp del]

section \<open>Evaluation\<close>

text \<open>The equations that compute the text functions on concrete strings.\<close>

lemmas text_defs =
  js_def isWhiteSpace_def trimStart_def trimEnd_def trim_def replace_STANDALONE_CR_def
  NON_ASCII_CONTROL_def replace_NON_ASCII_CONTROL_def PROMPT_CHAR_def sanitizeOutput_def
  sanitizeLines_def sanitizeRemainingBuffer_def

section \<open>Properties of the sanitizers\<close>

lemma keep_char_iff:
  "(\<not> NON_ASCII_CONTROL c \<and> c \<noteq> 0x0D) \<longleftrightarrow> (c = 0x0A \<or> (0x20 \<le> c \<and> c \<le> 0x7E))"
  unfolding NON_ASCII_CONTROL_def
  by (simp add: word_le_nat_alt word_unat_eq_iff) arith

lemma filter_CR_LINE_ENDINGS:
  "filter (\<lambda>c. c \<noteq> 0x0D) (replace_LINE_ENDINGS s) = filter (\<lambda>c. c \<noteq> 0x0D) s"
  by (induction s rule: replace_LINE_ENDINGS.induct) auto

lemma sanitizeOutput_filter:
  "sanitizeOutput s = trim (filter (\<lambda>c. c = 0x0A \<or> (0x20 \<le> c \<and> c \<le> 0x7E)) s)"
proof -
  have "replace_NON_ASCII_CONTROL (replace_STANDALONE_CR (replace_LINE_ENDINGS s))
        = filter (\<lambda>c. \<not> NON_ASCII_CONTROL c \<and> c \<noteq> 0x0D) s"
    by (simp add: replace_NON_ASCII_CONTROL_def replace_STANDALONE_CR_def
        filter_CR_LINE_ENDINGS conj_commute)
  then show ?thesis
    by (simp add: sanitizeOutput_def keep_char_iff)
qed

lemma set_trim: "set (trim s) \<subseteq> set s"
proof -
  have "set (trimEnd t) \<subseteq> set t" for t
    using set_dropWhileD [of _ isWhiteSpace "rev t"] by (auto simp: trimEnd_def)
  moreover have "set (trimStart s) \<subseteq> set s"
    using set_dropWhileD [of _ isWhiteSpace s] by (auto simp: trimStart_def)
  ultimately show ?thesis
    unfolding trim_def by blast
qed

lemma trim_ends:
  "trim s = [] \<or> (\<not> isWhiteSpace (hd (trim s)) \<and> \<not> isWhiteSpace (last (trim s)))"
proof (cases "trim s = []")
  case True
  then show ?thesis by simp
next
  case False
  define t where "t = trimStart s"
  define u where "u = dropWhile isWhiteSpace (rev t)"
  have ts: "trim s = rev u"
    by (simp add: trim_def trimEnd_def t_def u_def)
  with False have u: "u \<noteq> []" by simp
  then have "\<not> isWhiteSpace (hd u)"
    unfolding u_def by (rule hd_dropWhile)
  then have l: "\<not> isWhiteSpace (last (trim s))"
    using u by (simp add: ts last_rev)
  obtain ws where ws: "rev t = ws @ u"
    unfolding u_def by (metis takeWhile_dropWhile_id)
  from u ws have t: "t \<noteq> []" by auto
  then have "\<not> isWhiteSpace (hd t)"
    unfolding t_def trimStart_def by (rule hd_dropWhile)
  moreover have "hd (rev u) = hd t"
  proof -
    from ws have "t = rev u @ rev ws"
      by (metis rev_append rev_rev_ident)
    with u show ?thesis by simp
  qed
  ultimately show ?thesis
    using l by (simp add: ts)
qed

text \<open>
  C5, as amended. For every input string, \<open>sanitizeOutput\<close> keeps exactly the line feeds
  and the printable ASCII characters \<open>0x20\<close> to \<open>0x7E\<close>, in order, and trims the result:
  every carriage return goes (so \<open>\r\n\<close> becomes \<open>\n\<close> and a bare \<open>\r\<close> disappears), every
  other control character goes, and every code unit from \<open>0x7F\<close> up goes, printable
  Unicode included. The result has no white space at either end.
\<close>

theorem sanitizeOutput_keeps_ascii_only:
  "sanitizeOutput s = trim (filter (\<lambda>c. c = 0x0A \<or> (0x20 \<le> c \<and> c \<le> 0x7E)) s)
   \<and> (\<forall>c \<in> set (sanitizeOutput s). c = 0x0A \<or> (0x20 \<le> c \<and> c \<le> 0x7E))
   \<and> (sanitizeOutput s = [] \<or>
        (\<not> isWhiteSpace (hd (sanitizeOutput s)) \<and> \<not> isWhiteSpace (last (sanitizeOutput s))))"
proof -
  have "set (sanitizeOutput s) \<subseteq> {c. c = 0x0A \<or> (0x20 \<le> c \<and> c \<le> 0x7E)}"
    using set_trim [of "filter (\<lambda>c. c = 0x0A \<or> (0x20 \<le> c \<and> c \<le> 0x7E)) s"]
    by (auto simp: sanitizeOutput_filter)
  moreover have "sanitizeOutput s = [] \<or>
      (\<not> isWhiteSpace (hd (sanitizeOutput s)) \<and> \<not> isWhiteSpace (last (sanitizeOutput s)))"
    unfolding sanitizeOutput_def by (rule trim_ends)
  ultimately show ?thesis
    using sanitizeOutput_filter [of s] by blast
qed

text \<open>
  At \<open>" caf"\<close>, U+00E9 (e with acute accent), \<open>"\r\nok\r "\<close>: the accented letter and
  both carriage returns are removed, the line feed stays, the blanks at the ends are
  trimmed.
\<close>

theorem sanitizeOutput_keeps_ascii_only_witness:
  "sanitizeOutput (js '' caf'' @ [0xE9, 0x0D, 0x0A] @ js ''ok'' @ [0x0D, 0x20])
     = js ''caf'' @ [0x0A] @ js ''ok''"
  using sanitizeOutput_keeps_ascii_only
    [of "js '' caf'' @ [0xE9, 0x0D, 0x0A] @ js ''ok'' @ [0x0D, 0x20]"]
  by (simp add: text_defs)

text \<open>
  C5 as stated fails: a printable Unicode character is not preserved. The string
  \<open>"caf"\<close> followed by U+00E9 (e with acute accent) comes out as \<open>"caf"\<close>.
\<close>

theorem sanitizeOutput_drops_printable_unicode:
  "sanitizeOutput (js ''caf'' @ [0xE9]) = js ''caf''
   \<and> 0xE9 \<notin> set (sanitizeOutput (js ''caf'' @ [0xE9]))"
  by (simp add: text_defs)

section \<open>Properties of the retrieval cursor\<close>

lemma sanitizeRemainingBuffer_empty: "sanitizeRemainingBuffer [] = []"
  by (simp add: text_defs)

text \<open>
  C7. \<open>getUnretrievedOutput\<close> returns the sanitized slice of \<open>fullOutput\<close> from
  \<open>lastRetrievedIndex\<close> to the end and moves \<open>lastRetrievedIndex\<close> to the end, leaving
  \<open>fullOutput\<close> as it is. A second call with nothing appended in between returns the
  empty string; a call after \<open>new\<close> was appended returns the sanitized \<open>new\<close> and nothing
  of what an earlier call returned.
\<close>

theorem getUnretrievedOutput_idempotent:
  "fst (getUnretrievedOutput p)
     = sanitizeRemainingBuffer (drop (lastRetrievedIndex p) (fullOutput p))
   \<and> lastRetrievedIndex (snd (getUnretrievedOutput p)) = length (fullOutput p)
   \<and> fullOutput (snd (getUnretrievedOutput p)) = fullOutput p
   \<and> fst (getUnretrievedOutput (snd (getUnretrievedOutput p))) = []
   \<and> fst (getUnretrievedOutput
            ((snd (getUnretrievedOutput p))\<lparr>fullOutput := fullOutput p @ new\<rparr>))
       = sanitizeRemainingBuffer new"
  by (simp add: getUnretrievedOutput_def Let_def sanitizeRemainingBuffer_empty)

text \<open>
  With \<open>"one\ntwo\n"\<close> captured and nothing retrieved, the first call returns
  \<open>"one\ntwo"\<close>, the second \<open>""\<close>, and after \<open>"three\n"\<close> is appended the third returns
  \<open>"three"\<close>.
\<close>

theorem getUnretrievedOutput_idempotent_witness:
  "fst (getUnretrievedOutput
          (new_TerminalProcess\<lparr>fullOutput := js ''one'' @ [0x0A] @ js ''two'' @ [0x0A]\<rparr>))
     = js ''one'' @ [0x0A] @ js ''two''
   \<and> fst (getUnretrievedOutput (snd (getUnretrievedOutput
          (new_TerminalProcess\<lparr>fullOutput := js ''one'' @ [0x0A] @ js ''two'' @ [0x0A]\<rparr>))))
     = []
   \<and> fst (getUnretrievedOutput ((snd (getUnretrievedOutput
          (new_TerminalProcess\<lparr>fullOutput := js ''one'' @ [0x0A] @ js ''two'' @ [0x0A]\<rparr>)))
          \<lparr>fullOutput := js ''one'' @ [0x0A] @ js ''two'' @ [0x0A] @ js ''three'' @ [0x0A]\<rparr>))
     = js ''three''"
  using getUnretrievedOutput_idempotent
    [of "new_TerminalProcess\<lparr>fullOutput := js ''one'' @ [0x0A] @ js ''two'' @ [0x0A]\<rparr>"
        "js ''three'' @ [0x0A]"]
  by (simp add: new_TerminalProcess_def text_defs)

lemma PROMPT_CHAR_not_ws: "PROMPT_CHAR c \<Longrightarrow> \<not> isWhiteSpace c"
  by (auto simp: PROMPT_CHAR_def isWhiteSpace_def)

lemma PROMPT_CHAR_kept:
  "PROMPT_CHAR c \<Longrightarrow> \<not> NON_ASCII_CONTROL c \<and> c \<noteq> 0x0D \<and> c \<noteq> 0x0A"
  by (auto simp: PROMPT_CHAR_def NON_ASCII_CONTROL_def)

lemma replace_PROMPT_CHARS_all_prompt:
  "list_all PROMPT_CHAR l \<Longrightarrow> replace_PROMPT_CHARS l = butlast l"
proof (induction l)
  case Nil
  then show ?case by simp
next
  case (Cons c cs)
  show ?case
  proof (cases cs)
    case Nil
    with Cons.prems show ?thesis by simp
  next
    case (Cons d ds)
    with Cons.prems have "\<not> isWhiteSpace d"
      by (simp add: PROMPT_CHAR_not_ws)
    with Cons Cons.prems Cons.IH show ?thesis by simp
  qed
qed

lemma dropWhile_hd: "l = [] \<or> \<not> P (hd l) \<Longrightarrow> dropWhile P l = l"
  by (cases l) auto

lemma trim_no_ws:
  assumes "list_all (\<lambda>c. \<not> isWhiteSpace c) l"
  shows "trim l = l" and "trimEnd l = l"
proof -
  have a: "dropWhile isWhiteSpace l = l"
    using assms by (intro dropWhile_hd) (cases l, auto)
  have "list_all (\<lambda>c. \<not> isWhiteSpace c) (rev l)"
    using assms by (simp add: list_all_iff)
  then have b: "dropWhile isWhiteSpace (rev l) = rev l"
    by (intro dropWhile_hd) (cases "rev l", auto)
  show "trimEnd l = l" by (simp add: trimEnd_def b)
  then show "trim l = l" by (simp add: trim_def trimStart_def a)
qed

lemma all_prompt_facts:
  assumes "list_all PROMPT_CHAR l"
  shows "list_all (\<lambda>c. \<not> isWhiteSpace c) l"
    and "replace_NON_ASCII_CONTROL l = l"
    and "replace_STANDALONE_CR l = l"
    and "replace_LINE_ENDINGS l = l"
    and "0x0A \<notin> set l"
    and "list_all PROMPT_CHAR (butlast l)"
proof -
  show "list_all (\<lambda>c. \<not> isWhiteSpace c) l"
    using assms by (auto simp: list_all_iff PROMPT_CHAR_not_ws)
  show "replace_NON_ASCII_CONTROL l = l"
    using assms PROMPT_CHAR_kept by (auto simp: replace_NON_ASCII_CONTROL_def list_all_iff filter_id_conv)
  show cr: "replace_STANDALONE_CR l = l"
    using assms PROMPT_CHAR_kept by (auto simp: replace_STANDALONE_CR_def list_all_iff filter_id_conv)
  show "replace_LINE_ENDINGS l = l"
    using assms
  proof (induction l rule: replace_LINE_ENDINGS.induct)
    case (3 c d cs)
    then show ?case using PROMPT_CHAR_kept [of c] by auto
  qed simp_all
  show "0x0A \<notin> set l"
    using assms PROMPT_CHAR_kept by (auto simp: list_all_iff)
  show "list_all PROMPT_CHAR (butlast l)"
    using assms by (auto simp: list_all_iff dest: in_set_butlastD)
qed

lemma split_nl_line: "0x0A \<notin> set l \<Longrightarrow> split_nl (l @ [0x0A]) = [l, []]"
  by (induction l) auto

lemma sanitizeOutput_all_prompt:
  "list_all PROMPT_CHAR l \<Longrightarrow> sanitizeOutput l = l \<and> trim l = l"
  using all_prompt_facts [of l] trim_no_ws [of l]
  by (simp add: sanitizeOutput_def)

lemma sanitizeRemainingBuffer_all_prompt:
  assumes "list_all PROMPT_CHAR l"
  shows "sanitizeRemainingBuffer (l @ [0x0A]) = butlast l"
proof -
  note f = all_prompt_facts [OF assms]
  note g = all_prompt_facts [OF f(6)]
  have t: "trim (butlast l) = butlast l" "trimEnd (butlast l) = butlast l"
    using trim_no_ws [OF g(1)] by simp_all
  have one: "trim (replace_NON_ASCII_CONTROL (replace_PROMPT_CHARS l)) = butlast l"
    by (simp add: replace_PROMPT_CHARS_all_prompt [OF assms] g(2) t)
  have two: "trim (replace_NON_ASCII_CONTROL []) = []"
    by (simp add: replace_NON_ASCII_CONTROL_def trim_def trimStart_def trimEnd_def)
  have "sanitizeLines [l, []] = (if butlast l = [] then [] else [butlast l])"
    by (simp add: sanitizeLines_def one two)
  then show ?thesis
    using t(2) by (simp add: sanitizeRemainingBuffer_def split_nl_line [OF f(5)] trimEnd_def)
qed

lemma processOutput_all_prompt:
  "l \<noteq> [] \<Longrightarrow> list_all PROMPT_CHAR l \<Longrightarrow>
   fullOutput (processOutput lib now l p) = fullOutput p @ l @ [0x0A]
   \<and> lastRetrievedIndex (processOutput lib now l p) = lastRetrievedIndex p"
  using sanitizeOutput_all_prompt [of l]
  by (simp add: processOutput_def Let_def emit_def updateHotState_def)

text \<open>
  C9, as amended. \<open>getUnretrievedOutput\<close> moves \<open>lastRetrievedIndex\<close> to the end of
  \<open>fullOutput\<close> whatever it returns. After a retrieval, a captured line that consists
  only of prompt characters (\<open>%\<close>, \<open>$\<close>, \<open>#\<close>, \<open>>\<close>) is appended to \<open>fullOutput\<close> with
  its line feed; the next retrieval returns the line without its last character and
  moves the cursor past the line, and every later retrieval returns only what was
  appended after it. So the retrieval returns the empty string, although \<open>fullOutput\<close>
  grew, exactly when the line is a single prompt character, and that character is never
  delivered; of a longer line only the last character is lost.
\<close>

theorem getUnretrievedOutput_prompt_line:
  assumes "l \<noteq> []" and "list_all PROMPT_CHAR l"
  shows "lastRetrievedIndex (snd (getUnretrievedOutput q)) = length (fullOutput q)
   \<and> fullOutput (processOutput lib now l (snd (getUnretrievedOutput p)))
        = fullOutput p @ l @ [0x0A]
   \<and> fst (getUnretrievedOutput (processOutput lib now l (snd (getUnretrievedOutput p))))
        = butlast l
   \<and> (fst (getUnretrievedOutput (processOutput lib now l (snd (getUnretrievedOutput p)))) = [])
        = (length l = 1)
   \<and> lastRetrievedIndex
        (snd (getUnretrievedOutput (processOutput lib now l (snd (getUnretrievedOutput p)))))
        = length (fullOutput p) + length l + 1
   \<and> fst (getUnretrievedOutput
        ((snd (getUnretrievedOutput (processOutput lib now l (snd (getUnretrievedOutput p)))))
           \<lparr>fullOutput := fullOutput p @ l @ [0x0A] @ new\<rparr>))
        = sanitizeRemainingBuffer new"
proof -
  let ?p1 = "snd (getUnretrievedOutput p)"
  let ?p2 = "processOutput lib now l ?p1"
  have p1: "fullOutput ?p1 = fullOutput p" "lastRetrievedIndex ?p1 = length (fullOutput p)"
    by (simp_all add: getUnretrievedOutput_def Let_def)
  have p2: "fullOutput ?p2 = fullOutput p @ l @ [0x0A]"
      "lastRetrievedIndex ?p2 = length (fullOutput p)"
    using processOutput_all_prompt [OF assms, of lib now ?p1] by (simp_all add: p1)
  have b: "(butlast l = []) = (length l = 1)"
    using assms(1) by (cases l) auto
  show ?thesis
    using p2 b sanitizeRemainingBuffer_all_prompt [OF assms(2)]
    by (simp add: getUnretrievedOutput_def Let_def)
qed

text \<open>
  On a new process, the captured line \<open>"$"\<close> makes \<open>fullOutput\<close> \<open>"$\n"\<close>; the retrieval
  returns \<open>""\<close> and leaves the cursor at 2.
\<close>

theorem getUnretrievedOutput_prompt_line_witness:
  "fullOutput (processOutput plain 7 (js ''$'') (snd (getUnretrievedOutput new_TerminalProcess)))
       = js ''$'' @ [0x0A]
   \<and> fst (getUnretrievedOutput
        (processOutput plain 7 (js ''$'') (snd (getUnretrievedOutput new_TerminalProcess)))) = []
   \<and> lastRetrievedIndex (snd (getUnretrievedOutput
        (processOutput plain 7 (js ''$'') (snd (getUnretrievedOutput new_TerminalProcess))))) = 2"
proof -
  have a: "js ''$'' \<noteq> []" "list_all PROMPT_CHAR (js ''$'')"
    by (simp_all add: PROMPT_CHAR_def js_def)
  have n: "fullOutput new_TerminalProcess = []" by (simp add: new_TerminalProcess_def)
  have l: "length (js ''$'') = 1" "butlast (js ''$'') = []" by (simp_all add: js_def)
  show ?thesis
    using getUnretrievedOutput_prompt_line [OF a, of new_TerminalProcess plain 7
        new_TerminalProcess "[]"]
    by (simp add: n l)
qed

text \<open>
  C9 as stated fails for a line of several prompt characters: the captured line \<open>"$$"\<close>
  is not dropped by the sanitization on retrieval, which returns \<open>"$"\<close>.
\<close>

theorem prompt_line_of_two_is_delivered:
  "list_all PROMPT_CHAR (js ''$$'')
   \<and> fullOutput (processOutput plain 7 (js ''$$'') (snd (getUnretrievedOutput new_TerminalProcess)))
       = js ''$$'' @ [0x0A]
   \<and> fst (getUnretrievedOutput
        (processOutput plain 7 (js ''$$'') (snd (getUnretrievedOutput new_TerminalProcess))))
       = js ''$''"
  by (simp add: processOutput_def Let_def emit_def updateHotState_def plain_def
      getUnretrievedOutput_def new_TerminalProcess_def compilingMarkers_def
      markerNullifiers_def text_defs)

section \<open>Properties of detaching\<close>

text \<open>
  What \<open>continue()\<close> does with the field \<open>buffer\<close> when it is not empty and the process
  listens: the sanitized buffer is emitted as a line, if not empty, the buffer is
  emptied and the cursor moved; \<open>fullOutput\<close> and \<open>outputBuffer\<close> are not touched.
\<close>

lemma continue_flushes_buffer:
  "isListening p \<Longrightarrow> buffer p \<noteq> [] \<Longrightarrow>
   emitted (continue p) =
     emitted p
       @ (if sanitizeRemainingBuffer (buffer p) \<noteq> []
          then [Line (sanitizeRemainingBuffer (buffer p))] else [])
       @ [Continue]
   \<and> buffer (continue p) = []
   \<and> lastRetrievedIndex (continue p) = length (fullOutput p)
   \<and> \<not> isListening (continue p)
   \<and> fullOutput (continue p) = fullOutput p
   \<and> outputBuffer (continue p) = outputBuffer p"
  by (simp add: continue_def emitRemainingBufferIfListening_def emit_def Let_def)

lemma processOutput_buffer: "buffer (processOutput lib now l p) = buffer p"
  by (simp add: processOutput_def Let_def emit_def updateHotState_def)

lemma foldl_processOutput_buffer:
  "buffer (foldl (\<lambda>q line. processOutput lib now line q) p ls) = buffer p"
  by (induction ls arbitrary: p) (simp_all add: processOutput_buffer)

lemma onData_buffer: "buffer (onData lib now d p) = buffer p"
  by (simp add: onData_def Let_def emit_def processOutput_buffer foldl_processOutput_buffer)

lemma continue_buffer_empty: "buffer p = [] \<Longrightarrow> buffer (continue p) = []"
  by (simp add: continue_def emitRemainingBufferIfListening_def emit_def)

lemma running_new: "running lib (run startM endM new_TerminalProcess)"
  using running.started [of lib startM endM True]
  by (simp add: new_TerminalProcess_def)

lemma running_buffer_empty: "running lib p \<Longrightarrow> buffer p = []"
  by (induction rule: running.induct)
     (simp_all add: run_def new_TerminalProcess_def onData_buffer continue_buffer_empty
        getUnretrievedOutput_def Let_def)

lemma processOutput_not_listening:
  "\<not> isListening q \<Longrightarrow> emitted (processOutput lib now l q) = emitted q"
  by (simp add: processOutput_def Let_def emit_def updateHotState_def)

text \<open>
  C4. The claim does not hold of the code. The partial line in flight is the one the data
  handler keeps in \<open>outputBuffer\<close>; \<open>continue()\<close> flushes the field \<open>buffer\<close>, which
  only \<open>emitIfEol\<close> fills and which is empty in every running process. So for every
  running process \<open>continue()\<close> does no more than stop listening and emit the continue
  event: no line event is emitted for the partial line, \<open>fullOutput\<close> is as before, and
  the partial line stays in \<open>outputBuffer\<close>.
\<close>

theorem continue_does_not_flush_partial_line:
  "running lib p \<Longrightarrow>
   continue p = emit Continue (p\<lparr>isListening := False\<rparr>)
   \<and> emitted (continue p) = emitted p @ [Continue]
   \<and> fullOutput (continue p) = fullOutput p
   \<and> outputBuffer (continue p) = outputBuffer p"
  using running_buffer_empty [of lib p]
  by (simp add: continue_def emitRemainingBufferIfListening_def emit_def)

text \<open>
  After the chunks \<open>"START_CMD_1\n"\<close> and \<open>"abc"\<close> the partial line \<open>"abc"\<close> is in
  flight. \<open>continue()\<close> emits the continue event only; \<open>fullOutput\<close> is empty and a
  retrieval returns \<open>""\<close>. When the end marker arrives the line is recorded, but no line
  event is emitted for it, the process no longer listening.
\<close>

theorem continue_does_not_flush_partial_line_witness:
  "outputBuffer (feed plain [(0, js ''START_CMD_1'' @ [0x0A]), (1, js ''abc'')]
      (run (js ''START_CMD_1'') (js ''END_CMD_1'') new_TerminalProcess)) = js ''abc''
   \<and> emitted (continue (feed plain [(0, js ''START_CMD_1'' @ [0x0A]), (1, js ''abc'')]
      (run (js ''START_CMD_1'') (js ''END_CMD_1'') new_TerminalProcess))) = [Continue]
   \<and> fullOutput (continue (feed plain [(0, js ''START_CMD_1'' @ [0x0A]), (1, js ''abc'')]
      (run (js ''START_CMD_1'') (js ''END_CMD_1'') new_TerminalProcess))) = []
   \<and> fst (getUnretrievedOutput (continue (feed plain
      [(0, js ''START_CMD_1'' @ [0x0A]), (1, js ''abc'')]
      (run (js ''START_CMD_1'') (js ''END_CMD_1'') new_TerminalProcess)))) = []
   \<and> emitted (onData plain 9 (js ''END_CMD_1'' @ [0x0A]) (continue (feed plain
      [(0, js ''START_CMD_1'' @ [0x0A]), (1, js ''abc'')]
      (run (js ''START_CMD_1'') (js ''END_CMD_1'') new_TerminalProcess))))
       = [Continue, Completed, Continue]"
proof -
  let ?q = "run (js ''START_CMD_1'') (js ''END_CMD_1'') new_TerminalProcess"
  let ?p = "feed plain [(0, js ''START_CMD_1'' @ [0x0A]), (1, js ''abc'')] ?q"
  have f: "?p = onData plain 1 (js ''abc'') (onData plain 0 (js ''START_CMD_1'' @ [0x0A]) ?q)"
    by (simp add: feed_def)
  have r: "running plain ?p"
    unfolding f by (intro running.intros running_new)
  have v: "?p = ?q\<lparr>outputStarted := True, outputBuffer := js ''abc''\<rparr>"
    by (simp add: feed_def run_def new_TerminalProcess_def onData_def plain_def js_def Let_def)
  note c = continue_does_not_flush_partial_line [OF r]
  have e: "emitted (onData plain 9 (js ''END_CMD_1'' @ [0x0A])
        (emit Continue (?p\<lparr>isListening := False\<rparr>))) = [Continue, Completed, Continue]"
    unfolding v
    by (simp add: onData_def Let_def emit_def plain_def run_def new_TerminalProcess_def js_def
        processOutput_not_listening)
  have g: "emitted ?p = []" "fullOutput ?p = []" "outputBuffer ?p = js ''abc''"
    unfolding v by (simp_all add: run_def new_TerminalProcess_def)
  have h: "fst (getUnretrievedOutput (continue ?p)) = []"
    using c g by (simp add: getUnretrievedOutput_def sanitizeRemainingBuffer_empty emit_def)
  show ?thesis
    using c e g h by (simp add: emit_def)
qed

section \<open>Properties of the data handler\<close>

lemma startsWith_append: "startsWith (m @ s) m"
  by (induction m) auto

lemma includes_str_here: "includes_str (m @ s) m"
  by (cases "m @ s") (use startsWith_append [of m s] in auto)

lemma includes_str_append: "includes_str (pre @ m @ post) m"
  by (induction pre) (auto simp: includes_str_here)

text \<open>
  C3, as amended. For every chunk that contains the start marker and arrives while the
  handler is subscribed, whether capture has started or not, the handler sets
  \<open>outputStarted\<close> and returns: the whole chunk is discarded, the text \<open>post\<close> that
  follows the marker included. Nothing is buffered, recorded or emitted; capture begins
  with the next chunk.
\<close>

theorem start_marker_chunk_discarded:
  "handlerAttached p \<Longrightarrow> stripAnsi lib d = pre @ startMarker p @ post \<Longrightarrow>
   onData lib now d p = p\<lparr>outputStarted := True\<rparr>
   \<and> outputBuffer (onData lib now d p) = outputBuffer p
   \<and> fullOutput (onData lib now d p) = fullOutput p
   \<and> emitted (onData lib now d p) = emitted p"
  using includes_str_append [of pre "startMarker p" post]
  by (simp add: onData_def Let_def)

text \<open>
  The chunk \<open>"$ START_CMD_1\nhello\n"\<close> on a process that has just been started: the
  flag is set and \<open>"hello"\<close> is not buffered.
\<close>

theorem start_marker_chunk_discarded_witness:
  "outputStarted (onData plain 0 (js ''$ START_CMD_1'' @ [0x0A] @ js ''hello'' @ [0x0A])
      (run (js ''START_CMD_1'') (js ''END_CMD_1'') new_TerminalProcess))
   \<and> outputBuffer (onData plain 0 (js ''$ START_CMD_1'' @ [0x0A] @ js ''hello'' @ [0x0A])
      (run (js ''START_CMD_1'') (js ''END_CMD_1'') new_TerminalProcess)) = []"
proof -
  let ?p = "run (js ''START_CMD_1'') (js ''END_CMD_1'') new_TerminalProcess"
  have a: "handlerAttached ?p" by (simp add: run_def)
  have d: "stripAnsi plain (js ''$ START_CMD_1'' @ [0x0A] @ js ''hello'' @ [0x0A])
      = js ''$ '' @ startMarker ?p @ ([0x0A] @ js ''hello'' @ [0x0A])"
    by (simp add: plain_def run_def js_def)
  show ?thesis
    using start_marker_chunk_discarded [OF a d, of 0]
    by (simp add: run_def new_TerminalProcess_def)
qed

text \<open>
  C3 as stated fails: output that follows the start marker inside the same chunk is
  lost. After the chunks \<open>"START_CMD_1\nhello\n"\<close> and \<open>"END_CMD_1\n"\<close> nothing has been
  recorded and no line was emitted.
\<close>

theorem output_after_start_marker_lost:
  "fullOutput (feed plain
      [(0, js ''START_CMD_1'' @ [0x0A] @ js ''hello'' @ [0x0A]), (5, js ''END_CMD_1'' @ [0x0A])]
      (run (js ''START_CMD_1'') (js ''END_CMD_1'') new_TerminalProcess)) = []
   \<and> emitted (feed plain
      [(0, js ''START_CMD_1'' @ [0x0A] @ js ''hello'' @ [0x0A]), (5, js ''END_CMD_1'' @ [0x0A])]
      (run (js ''START_CMD_1'') (js ''END_CMD_1'') new_TerminalProcess)) = [Completed, Continue]"
  by (simp add: feed_def run_def new_TerminalProcess_def onData_def plain_def js_def Let_def
      emit_def)





section \<open>Chunk boundaries\<close>

lemma split_nl_nonempty [simp]: "split_nl s \<noteq> []"
  by (induction s) auto

lemma split_nl_single: "split_nl s = [x] \<Longrightarrow> x = s"
proof (induction s arbitrary: x)
  case Nil
  then show ?case by simp
next
  case (Cons c cs)
  show ?case
  proof (cases "c = 0x0A")
    case True
    with Cons.prems show ?thesis by simp
  next
    case False
    with Cons.prems have x: "x = c # hd (split_nl cs)" and t: "tl (split_nl cs) = []"
      by auto
    from t have "split_nl cs = [hd (split_nl cs)]"
      by (cases "split_nl cs") auto
    then have "hd (split_nl cs) = cs" by (rule Cons.IH)
    with x show ?thesis by simp
  qed
qed

lemma split_nl_no_nl: "0x0A \<notin> set s \<Longrightarrow> split_nl s = [s]"
  by (induction s) auto

lemma last_split_nl_no_nl: "0x0A \<notin> set (last (split_nl s))"
proof (induction s)
  case Nil
  then show ?case by simp
next
  case (Cons c cs)
  then show ?case
    by (cases "split_nl cs"; cases "tl (split_nl cs)") (auto split: if_splits)
qed

lemma split_nl_append:
  "split_nl (a @ b) = butlast (split_nl a) @ split_nl (last (split_nl a) @ b)"
proof (induction a)
  case Nil
  then show ?case by simp
next
  case (Cons c cs)
  obtain l ls where S: "split_nl cs = l # ls"
    by (cases "split_nl cs") auto
  show ?case
  proof (cases "c = 0x0A")
    case True
    then show ?thesis using Cons.IH by (simp add: S)
  next
    case False
    show ?thesis
    proof (cases ls)
      case Nil
      with False S Cons.IH show ?thesis by simp
    next
      case (Cons k ks)
      with False S Cons.IH show ?thesis by simp
    qed
  qed
qed

lemma processOutput_same:
  "same_output p q \<Longrightarrow> same_output (processOutput lib now l p) (processOutput lib now' l q)"
  by (simp add: same_output_def processOutput_def Let_def emit_def updateHotState_def)

lemma processOutput_frame:
  "outputBuffer (processOutput lib now l p) = outputBuffer p
   \<and> handlerAttached (processOutput lib now l p) = handlerAttached p
   \<and> outputStarted (processOutput lib now l p) = outputStarted p
   \<and> startMarker (processOutput lib now l p) = startMarker p
   \<and> endMarker (processOutput lib now l p) = endMarker p"
  by (simp add: processOutput_def Let_def emit_def updateHotState_def)

lemma foldl_processOutput_same:
  "same_output p q \<Longrightarrow>
   same_output (foldl (\<lambda>q line. processOutput lib now line q) p ls) (processLines lib ls q)"
  unfolding processLines_def
  by (induction ls arbitrary: p q) (auto intro: processOutput_same)

lemma foldl_processOutput_frame:
  "outputBuffer (foldl (\<lambda>q line. processOutput lib now line q) p ls) = outputBuffer p
   \<and> handlerAttached (foldl (\<lambda>q line. processOutput lib now line q) p ls) = handlerAttached p
   \<and> outputStarted (foldl (\<lambda>q line. processOutput lib now line q) p ls) = outputStarted p
   \<and> startMarker (foldl (\<lambda>q line. processOutput lib now line q) p ls) = startMarker p
   \<and> endMarker (foldl (\<lambda>q line. processOutput lib now line q) p ls) = endMarker p"
  by (induction ls arbitrary: p) (simp_all add: processOutput_frame)

lemma processLines_append:
  "processLines lib (ks @ ls) p = processLines lib ls (processLines lib ks p)"
  by (simp add: processLines_def)

lemma processLines_same:
  "same_output p q \<Longrightarrow> same_output (processLines lib ls p) (processLines lib ls q)"
  unfolding processLines_def
  by (induction ls arbitrary: p q) (auto intro: processOutput_same)

lemma onData_capturing:
  assumes "capturing p" "marker_free lib p d"
  shows "same_output (onData lib now d p)
           (processLines lib (butlast (split_nl (outputBuffer p @ stripAnsi lib d))) p)"
    and "outputBuffer (onData lib now d p) = last (split_nl (outputBuffer p @ stripAnsi lib d))"
    and "capturing (onData lib now d p)"
    and "startMarker (onData lib now d p) = startMarker p"
    and "endMarker (onData lib now d p) = endMarker p"
proof -
  let ?ob = "outputBuffer p @ stripAnsi lib d"
  let ?p1 = "p\<lparr>outputBuffer := ?ob\<rparr>"
  have eq: "onData lib now d p =
      (if length (split_nl ?ob) > 1
       then (foldl (\<lambda>q line. processOutput lib now line q) ?p1 (butlast (split_nl ?ob)))
              \<lparr>outputBuffer := last (split_nl ?ob)\<rparr>
       else ?p1)"
    using assms by (simp add: onData_def Let_def capturing_def marker_free_def)
  have s1: "same_output ?p1 p" by (simp add: same_output_def)
  show "same_output (onData lib now d p) (processLines lib (butlast (split_nl ?ob)) p)"
  proof (cases "length (split_nl ?ob) > 1")
    case True
    have "same_output (foldl (\<lambda>q line. processOutput lib now line q) ?p1 (butlast (split_nl ?ob)))
            (processLines lib (butlast (split_nl ?ob)) p)"
      using s1 by (rule foldl_processOutput_same)
    with True eq show ?thesis by (simp add: same_output_def)
  next
    case False
    then obtain x where "split_nl ?ob = [x]"
      by (cases "split_nl ?ob") (auto simp: not_less)
    with False eq show ?thesis by (simp add: same_output_def processLines_def)
  qed
  show "outputBuffer (onData lib now d p) = last (split_nl ?ob)"
  proof (cases "length (split_nl ?ob) > 1")
    case True
    with eq show ?thesis by simp
  next
    case False
    then obtain x where x: "split_nl ?ob = [x]"
      by (cases "split_nl ?ob") (auto simp: not_less)
    then have "x = ?ob" by (rule split_nl_single)
    with False eq x show ?thesis by simp
  qed
  show "capturing (onData lib now d p)"
    using assms(1) eq foldl_processOutput_frame [of lib now ?p1 "butlast (split_nl ?ob)"]
    by (simp add: capturing_def)
  show "startMarker (onData lib now d p) = startMarker p"
    using eq foldl_processOutput_frame [of lib now ?p1 "butlast (split_nl ?ob)"] by simp
  show "endMarker (onData lib now d p) = endMarker p"
    using eq foldl_processOutput_frame [of lib now ?p1 "butlast (split_nl ?ob)"] by simp
qed

lemma same_output_trans: "same_output p q \<Longrightarrow> same_output q r \<Longrightarrow> same_output p r"
  by (simp add: same_output_def)

lemma feed_capturing:
  "capturing p \<Longrightarrow> 0x0A \<notin> set (outputBuffer p) \<Longrightarrow> list_all (\<lambda>(now, d). marker_free lib p d) chunks \<Longrightarrow>
   same_output (feed lib chunks p)
     (processLines lib
        (butlast (split_nl (outputBuffer p @ concat (map (\<lambda>(now, d). stripAnsi lib d) chunks)))) p)
   \<and> outputBuffer (feed lib chunks p)
       = last (split_nl (outputBuffer p @ concat (map (\<lambda>(now, d). stripAnsi lib d) chunks)))"
proof (induction chunks arbitrary: p)
  case Nil
  then show ?case
    by (simp add: feed_def processLines_def same_output_def split_nl_no_nl)
next
  case (Cons a chunks)
  obtain now d where a: "a = (now, d)" by (cases a)
  let ?q = "onData lib now d p"
  let ?sd = "stripAnsi lib d"
  let ?T = "concat (map (\<lambda>(now, d). stripAnsi lib d) chunks)"
  from Cons.prems a have mf: "marker_free lib p d" by simp
  note step = onData_capturing [OF Cons.prems(1) mf, of now]
  have "list_all (\<lambda>(now, d). marker_free lib ?q d) chunks"
    using Cons.prems(3) step(4,5) by (simp add: marker_free_def)
  moreover have "0x0A \<notin> set (outputBuffer ?q)"
    unfolding step(2) by (rule last_split_nl_no_nl)
  ultimately have IH:
    "same_output (feed lib chunks ?q)
       (processLines lib (butlast (split_nl (outputBuffer ?q @ ?T))) ?q)
     \<and> outputBuffer (feed lib chunks ?q) = last (split_nl (outputBuffer ?q @ ?T))"
    using step(3) by (intro Cons.IH)
  have sp: "split_nl (outputBuffer p @ ?sd @ ?T)
      = butlast (split_nl (outputBuffer p @ ?sd)) @ split_nl (outputBuffer ?q @ ?T)"
    using split_nl_append [of "outputBuffer p @ ?sd" ?T] step(2) by simp
  have bl: "butlast (split_nl (outputBuffer p @ ?sd @ ?T))
      = butlast (split_nl (outputBuffer p @ ?sd)) @ butlast (split_nl (outputBuffer ?q @ ?T))"
    by (simp add: sp butlast_append)
  have la: "last (split_nl (outputBuffer p @ ?sd @ ?T)) = last (split_nl (outputBuffer ?q @ ?T))"
    by (simp add: sp)
  have "same_output (processLines lib (butlast (split_nl (outputBuffer ?q @ ?T))) ?q)
      (processLines lib (butlast (split_nl (outputBuffer ?q @ ?T)))
         (processLines lib (butlast (split_nl (outputBuffer p @ ?sd))) p))"
    using step(1) by (rule processLines_same)
  with IH have "same_output (feed lib chunks ?q)
      (processLines lib (butlast (split_nl (outputBuffer p @ ?sd @ ?T))) p)"
    by (auto simp: bl processLines_append intro: same_output_trans)
  moreover have "feed lib (a # chunks) p = feed lib chunks ?q"
    by (simp add: feed_def a)
  ultimately show ?case
    using IH la by (simp add: a)
qed

lemma onData_idle:
  "\<not> capturing p \<Longrightarrow> marker_free lib p d \<Longrightarrow> onData lib now d p = p"
  by (auto simp: onData_def Let_def capturing_def marker_free_def)

lemma feed_idle:
  "\<not> capturing p \<Longrightarrow> list_all (\<lambda>(now, d). marker_free lib p d) chunks \<Longrightarrow>
   feed lib chunks p = p"
proof (induction chunks)
  case Nil
  then show ?case by (simp add: feed_def)
next
  case (Cons a chunks)
  obtain now d where a: "a = (now, d)" by (cases a)
  with Cons.prems have "onData lib now d p = p"
    by (simp add: onData_idle)
  then have "feed lib (a # chunks) p = feed lib chunks p"
    by (simp add: feed_def a)
  with Cons show ?case by simp
qed

text \<open>
  What \<open>run\<close> keeps in \<open>outputBuffer\<close> never holds a line feed: it is empty at first and
  every chunk leaves it so.
\<close>

lemma outputBuffer_no_nl:
  "0x0A \<notin> set (outputBuffer p) \<Longrightarrow> 0x0A \<notin> set (outputBuffer (onData lib now d p))"
proof -
  assume inv: "0x0A \<notin> set (outputBuffer p)"
  let ?ob = "outputBuffer p @ stripAnsi lib d"
  have one: "0x0A \<notin> set ?ob" if "\<not> 1 < length (split_nl ?ob)"
  proof -
    from that obtain x where x: "split_nl ?ob = [x]"
      by (cases "split_nl ?ob") (auto simp: not_less)
    then have "x = ?ob" by (rule split_nl_single)
    with x last_split_nl_no_nl [of ?ob] show ?thesis by simp
  qed
  show ?thesis
    using inv one last_split_nl_no_nl [of ?ob]
      foldl_processOutput_frame [of lib now "p\<lparr>outputBuffer := ?ob\<rparr>" "butlast (split_nl ?ob)"]
      processOutput_frame [of lib now "outputBuffer p" "p\<lparr>outputStarted := False\<rparr>"]
    by (auto simp: onData_def Let_def emit_def)
qed

lemma continue_outputBuffer: "outputBuffer (continue p) = outputBuffer p"
  by (simp add: continue_def emitRemainingBufferIfListening_def emit_def Let_def)

lemma running_outputBuffer_no_nl: "running lib p \<Longrightarrow> 0x0A \<notin> set (outputBuffer p)"
  by (induction rule: running.induct)
     (simp_all add: run_def outputBuffer_no_nl continue_outputBuffer getUnretrievedOutput_def Let_def)

text \<open>
  What decides the output is the concatenation of the stripped chunks: two sequences of
  marker-free chunks that agree on it have the same effect.
\<close>

lemma chunk_boundaries_stripped:
  assumes "0x0A \<notin> set (outputBuffer p)"
    and "list_all (\<lambda>(now, d). marker_free lib p d) chunks"
    and "list_all (\<lambda>(now, d). marker_free lib p d) chunks'"
    and "concat (map (\<lambda>(now, d). stripAnsi lib d) chunks)
         = concat (map (\<lambda>(now, d). stripAnsi lib d) chunks')"
  shows "emitted (feed lib chunks p) = emitted (feed lib chunks' p)
    \<and> fullOutput (feed lib chunks p) = fullOutput (feed lib chunks' p)
    \<and> outputBuffer (feed lib chunks p) = outputBuffer (feed lib chunks' p)"
proof (cases "capturing p")
  case True
  then show ?thesis
    using feed_capturing [OF True assms(1,2)] feed_capturing [OF True assms(1,3)] assms(4)
    by (simp add: same_output_def)
next
  case False
  then show ?thesis
    using feed_idle [OF False assms(2)] feed_idle [OF False assms(3)] by simp
qed

text \<open>
  C2, as amended. Take a running process and two ways of splitting the same text into
  chunks, such that no chunk contains a marker once stripped and no chunk boundary cuts
  an escape sequence (stripping the chunks one by one gives the stripped text).
  Delivering either sequence emits the same events, records the same \<open>fullOutput\<close> and
  leaves the same partial line buffered.
\<close>

theorem chunk_boundaries_between_markers:
  assumes "running lib p"
    and "list_all (\<lambda>(now, d). marker_free lib p d) chunks"
    and "list_all (\<lambda>(now, d). marker_free lib p d) chunks'"
    and "concat (map snd chunks) = concat (map snd chunks')"
    and "concat (map (\<lambda>(now, d). stripAnsi lib d) chunks) = stripAnsi lib (concat (map snd chunks))"
    and "concat (map (\<lambda>(now, d). stripAnsi lib d) chunks')
         = stripAnsi lib (concat (map snd chunks'))"
  shows "emitted (feed lib chunks p) = emitted (feed lib chunks' p)
    \<and> fullOutput (feed lib chunks p) = fullOutput (feed lib chunks' p)
    \<and> outputBuffer (feed lib chunks p) = outputBuffer (feed lib chunks' p)"
proof -
  have "0x0A \<notin> set (outputBuffer p)"
    using assms(1) by (rule running_outputBuffer_no_nl)
  moreover have "concat (map (\<lambda>(now, d). stripAnsi lib d) chunks)
      = concat (map (\<lambda>(now, d). stripAnsi lib d) chunks')"
    using assms(4,5,6) by simp
  ultimately show ?thesis
    using assms(2,3) by (intro chunk_boundaries_stripped)
qed

text \<open>
  A capturing process receives \<open>"hello\nworld\n"\<close> as the three chunks \<open>"hel"\<close>,
  \<open>"lo\nwor"\<close>, \<open>"ld\n"\<close>: the lines emitted are \<open>"hello"\<close> and \<open>"world"\<close>, those of the
  text delivered as one chunk.
\<close>

theorem chunk_boundaries_between_markers_witness:
  "emitted (feed plain
      [(1, js ''hel''), (2, js ''lo'' @ [0x0A] @ js ''wor''), (3, js ''ld'' @ [0x0A])]
      (onData plain 0 (js ''START_CMD_1'' @ [0x0A])
         (run (js ''START_CMD_1'') (js ''END_CMD_1'') new_TerminalProcess)))
     = [Line (js ''hello''), Line (js ''world'')]"
proof -
  let ?q = "run (js ''START_CMD_1'') (js ''END_CMD_1'') new_TerminalProcess"
  let ?p = "onData plain 0 (js ''START_CMD_1'' @ [0x0A]) ?q"
  let ?A = "[(1::nat, js ''hel''), (2, js ''lo'' @ [0x0A] @ js ''wor''), (3, js ''ld'' @ [0x0A])]"
  let ?B = "[(1::nat, js ''hello'' @ [0x0A] @ js ''world'' @ [0x0A])]"
  have r: "running plain ?p"
    by (intro running.intros running_new)
  have v: "?p = ?q\<lparr>outputStarted := True\<rparr>"
    by (simp add: onData_def Let_def plain_def run_def js_def)
  have h2: "list_all (\<lambda>(now, d). marker_free plain ?p d) ?A"
    unfolding v by (simp add: marker_free_def plain_def run_def js_def)
  have h3: "list_all (\<lambda>(now, d). marker_free plain ?p d) ?B"
    unfolding v by (simp add: marker_free_def plain_def run_def js_def)
  have h4: "concat (map snd ?A) = concat (map snd ?B)"
    by (simp add: js_def)
  have h5: "concat (map (\<lambda>(now, d). stripAnsi plain d) ?A) = stripAnsi plain (concat (map snd ?A))"
    by (simp add: plain_def)
  have h6: "concat (map (\<lambda>(now, d). stripAnsi plain d) ?B) = stripAnsi plain (concat (map snd ?B))"
    by (simp add: plain_def)
  have B: "emitted (feed plain ?B ?p) = [Line (js ''hello''), Line (js ''world'')]"
    unfolding v
    by (simp add: feed_def run_def new_TerminalProcess_def onData_def plain_def Let_def emit_def
        processOutput_def updateHotState_def compilingMarkers_def markerNullifiers_def text_defs)
  show ?thesis
    using chunk_boundaries_between_markers [OF r h2 h3 h4 h5 h6] B by simp
qed

text \<open>
  C2 as stated fails, in two ways. The text \<open>"START_CMD_1\nhello\nEND_CMD_1\n"\<close>
  delivered as three chunks, one per line, emits the line \<open>"hello"\<close>; delivered as two
  chunks, the first holding the marker line and \<open>"hello\n"\<close>, it emits no line. And
  between the markers, the text \<open>ESC "[32mhi\n"\<close> delivered as one chunk emits the line
  \<open>"hi"\<close>; delivered as the chunks \<open>ESC\<close> and \<open>"[32mhi\n"\<close> it emits the line
  \<open>"[32mhi"\<close>, the colour code being stripped only where one chunk holds all of it.
\<close>

theorem chunk_boundaries_alter_lines:
  "concat (map snd
      [(0::nat, js ''START_CMD_1'' @ [0x0A]), (1, js ''hello'' @ [0x0A]),
       (5, js ''END_CMD_1'' @ [0x0A])])
     = concat (map snd
      [(0::nat, js ''START_CMD_1'' @ [0x0A] @ js ''hello'' @ [0x0A]),
       (5, js ''END_CMD_1'' @ [0x0A])])
   \<and> emitted (feed plain
      [(0, js ''START_CMD_1'' @ [0x0A]), (1, js ''hello'' @ [0x0A]),
       (5, js ''END_CMD_1'' @ [0x0A])]
      (run (js ''START_CMD_1'') (js ''END_CMD_1'') new_TerminalProcess))
     = [Line (js ''hello''), Completed, Continue]
   \<and> emitted (feed plain
      [(0, js ''START_CMD_1'' @ [0x0A] @ js ''hello'' @ [0x0A]),
       (5, js ''END_CMD_1'' @ [0x0A])]
      (run (js ''START_CMD_1'') (js ''END_CMD_1'') new_TerminalProcess))
     = [Completed, Continue]
   \<and> concat (map snd
      [(0::nat, js ''START_CMD_1'' @ [0x0A]), (1, [0x1B]), (2, js ''[32mhi'' @ [0x0A]),
       (5, js ''END_CMD_1'' @ [0x0A])])
     = concat (map snd
      [(0::nat, js ''START_CMD_1'' @ [0x0A]), (1, [0x1B] @ js ''[32mhi'' @ [0x0A]),
       (5, js ''END_CMD_1'' @ [0x0A])])
   \<and> emitted (feed green
      [(0, js ''START_CMD_1'' @ [0x0A]), (1, [0x1B]), (2, js ''[32mhi'' @ [0x0A]),
       (5, js ''END_CMD_1'' @ [0x0A])]
      (run (js ''START_CMD_1'') (js ''END_CMD_1'') new_TerminalProcess))
     = [Line (js ''[32mhi''), Completed, Continue]
   \<and> emitted (feed green
      [(0, js ''START_CMD_1'' @ [0x0A]), (1, [0x1B] @ js ''[32mhi'' @ [0x0A]),
       (5, js ''END_CMD_1'' @ [0x0A])]
      (run (js ''START_CMD_1'') (js ''END_CMD_1'') new_TerminalProcess))
     = [Line (js ''hi''), Completed, Continue]"
  by (simp add: feed_def run_def new_TerminalProcess_def onData_def plain_def green_def Let_def
      emit_def processOutput_def updateHotState_def compilingMarkers_def markerNullifiers_def
      text_defs)

section \<open>Properties of the manager\<close>

lemma listener_frame:
  "processes (listener r e m) = processes m
   \<and> terminalIds (listener r e m) = terminalIds m
   \<and> process (executions (listener r e m) r') = process (executions m r')"
  by (simp add: listener_def Let_def split: event.splits)

lemma foldl_listener_frame:
  "processes (foldl (\<lambda>q e. listener r e q) m es) = processes m
   \<and> terminalIds (foldl (\<lambda>q e. listener r e q) m es) = terminalIds m
   \<and> process (executions (foldl (\<lambda>q e. listener r e q) m es) r') = process (executions m r')"
  by (induction es arbitrary: m) (simp_all add: listener_frame)

lemma dispatch_frame:
  "processes (dispatch r f m) = processes m
   \<and> terminalIds (dispatch r f m) = terminalIds m
   \<and> process (executions (dispatch r f m) r) = f (process (executions m r))"
  by (simp add: dispatch_def Let_def foldl_listener_frame)

lemma dispatch_events:
  "emitted (f (process (executions m r))) = emitted (process (executions m r)) @ es \<Longrightarrow>
   dispatch r f m =
     foldl (\<lambda>q e. listener r e q)
       (m\<lparr>executions := (executions m)
            (r := (executions m r)\<lparr>process := f (process (executions m r))\<rparr>)\<rparr>) es"
  by (simp add: dispatch_def Let_def)



lemma onData_end_fresh:
  "handlerAttached p \<Longrightarrow> outputBuffer p = [] \<Longrightarrow>
   includes_str (stripAnsi lib d) (endMarker p) \<Longrightarrow>
   \<not> includes_str (stripAnsi lib d) (startMarker p) \<Longrightarrow>
   emitted (onData lib now d p) = emitted p @ [Completed, Continue]"
  by (simp add: onData_def Let_def emit_def)

lemma terminalData_end_fresh:
  assumes "handlerAttached (process (executions m r))"
    and "outputBuffer (process (executions m r)) = []"
    and "includes_str (stripAnsi lib d) (endMarker (process (executions m r)))"
    and "\<not> includes_str (stripAnsi lib d) (startMarker (process (executions m r)))"
    and "onceCompleted (executions m r)" and "onceContinue (executions m r)"
  shows "\<not> busy (terminals (terminalData lib now d r m) (terminalInfo (executions m r)))
     \<and> promise (executions (terminalData lib now d r m) r) = resolve (promise (executions m r))"
proof -
  let ?x = "executions m r"
  have "emitted (onData lib now d (process ?x)) = emitted (process ?x) @ [Completed, Continue]"
    using assms(1-4) by (rule onData_end_fresh)
  then have "dispatch r (onData lib now d) m =
      foldl (\<lambda>q e. listener r e q)
        (m\<lparr>executions := (executions m)(r := ?x\<lparr>process := onData lib now d (process ?x)\<rparr>)\<rparr>)
        [Completed, Continue]"
    by (rule dispatch_events)
  then show ?thesis
    using assms(5,6) by (simp add: terminalData_def listener_def Let_def)
qed

text \<open>What \<open>runCommand\<close> leaves behind.\<close>

lemma runCommand_state:
  assumes "runCommand startM endM t cmd m = (r, m1)"
  shows "busy (terminals m1 t)" and "lastCommand (terminals m1 t) = cmd"
    and "processes m1 = (processes m)(t \<mapsto> r)"
    and "terminalInfo (executions m1 r) = t" and "command (executions m1 r) = cmd"
    and "onceCompleted (executions m1 r)" and "onceContinue (executions m1 r)"
    and "onceError (executions m1 r)" and "cleanupTimeout (executions m1 r)"
    and "promise (executions m1 r) = Pending"
    and "process (executions m1 r)
         = run startM endM (new_TerminalProcess\<lparr>waitForShellIntegration := False\<rparr>)"
  using assms by (auto simp: runCommand_def Let_def)

lemma runCommand_ref: "runCommand startM endM t cmd m = (r, m1) \<Longrightarrow> r = nextRef m"
  by (auto simp: runCommand_def Let_def)

lemma run_new:
  "handlerAttached (run startM endM (new_TerminalProcess\<lparr>waitForShellIntegration := False\<rparr>))"
  "outputBuffer (run startM endM (new_TerminalProcess\<lparr>waitForShellIntegration := False\<rparr>)) = []"
  "buffer (run startM endM (new_TerminalProcess\<lparr>waitForShellIntegration := False\<rparr>)) = []"
  "emitted (run startM endM (new_TerminalProcess\<lparr>waitForShellIntegration := False\<rparr>)) = []"
  "startMarker (run startM endM (new_TerminalProcess\<lparr>waitForShellIntegration := False\<rparr>)) = startM"
  "endMarker (run startM endM (new_TerminalProcess\<lparr>waitForShellIntegration := False\<rparr>)) = endM"
  by (simp_all add: run_def new_TerminalProcess_def)








lemma listener_Line: "listener r (Line l) m = m"
  by (simp add: listener_def Let_def)

lemma foldl_listener_lines:
  "foldl (\<lambda>q e. listener r e q) m (map Line ls @ es) = foldl (\<lambda>q e. listener r e q) m es"
  by (induction ls) (simp_all add: listener_Line)












lemma example_end_chunk:
  "includes_str (stripAnsi plain (js ''END_CMD_1'' @ [0x0A])) (js ''END_CMD_1'')
   \<and> \<not> includes_str (stripAnsi plain (js ''END_CMD_1'' @ [0x0A])) (js ''START_CMD_1'')"
  by (simp add: plain_def js_def)



text \<open>
  The promise and the flag are settled by different events on the success side too: a
  holder of the handle who calls \<open>continue()\<close> while the command runs resolves the
  promise, and the session stays busy until the end marker.
\<close>

lemma continue_idle:
  "buffer p = [] \<Longrightarrow> emitted (continue p) = emitted p @ [Continue]"
  by (simp add: continue_def emitRemainingBufferIfListening_def emit_def)

lemma detach_resolves_and_stays_busy:
  assumes rc: "runCommand startM endM t cmd m = (r, m1)"
  shows "promise (executions (callContinue r m1) r) = Resolved
    \<and> busy (terminals (callContinue r m1) t)"
proof -
  note st = runCommand_state [OF rc]
  have "emitted (continue (process (executions m1 r)))
      = emitted (process (executions m1 r)) @ [Continue]"
    by (rule continue_idle) (simp add: st run_new)
  then have "dispatch r continue m1 =
      foldl (\<lambda>q e. listener r e q)
        (m1\<lparr>executions := (executions m1)
             (r := (executions m1 r)\<lparr>process := continue (process (executions m1 r))\<rparr>)\<rparr>)
        [Continue]"
    by (rule dispatch_events)
  then show ?thesis
    using st(1) st(7) st(10) by (simp add: callContinue_def listener_def Let_def resolve_def)
qed

text \<open>
  C6, as amended. The manager's mapping from session id to process is changed by two
  operations only: \<open>runCommand\<close> sets the entry of its session to the new process, and
  \<open>disposeAll\<close> empties the mapping. Terminal data (the end marker included), the timer,
  \<open>continue()\<close> and retrieval leave it as it is. So a session id is a key from its first
  \<open>runCommand\<close> until \<open>disposeAll\<close>, also after its execution has completed, timed out
  or been detached.
\<close>

theorem processes_changed_by_runCommand_and_disposeAll_only:
  "processes (step lib a m) =
     (case a of
        RunCommand startM endM t cmd \<Rightarrow> (processes m)(t \<mapsto> nextRef m)
      | DisposeAll \<Rightarrow> Map.empty
      | _ \<Rightarrow> processes m)"
  by (cases a)
     (simp_all add: runCommand_def Let_def terminalData_def timeoutFires_def callContinue_def
        dispatch_frame disposeAll_def TerminalManager_getUnretrievedOutput_def
        split: option.splits prod.splits)

text \<open>
  Session 7 is a key after \<open>runCommand\<close> and the timeout of that command, and no longer
  after \<open>disposeAll\<close>.
\<close>

theorem processes_changed_by_runCommand_and_disposeAll_only_witness:
  "processes (step plain (TimeoutFires 0)
      (step plain (RunCommand (js ''START_CMD_1'') (js ''END_CMD_1'') 7 (js ''sleep 60''))
         (new_TerminalManager (\<lambda>i. \<lparr>busy = False, lastCommand = []\<rparr>) {7}))) 7 = Some 0
   \<and> processes (step plain DisposeAll
      (step plain (RunCommand (js ''START_CMD_1'') (js ''END_CMD_1'') 7 (js ''sleep 60''))
         (new_TerminalManager (\<lambda>i. \<lparr>busy = False, lastCommand = []\<rparr>) {7}))) 7 = None"
  using processes_changed_by_runCommand_and_disposeAll_only
      [of plain "TimeoutFires 0"
        "step plain (RunCommand (js ''START_CMD_1'') (js ''END_CMD_1'') 7 (js ''sleep 60''))
           (new_TerminalManager (\<lambda>i. \<lparr>busy = False, lastCommand = []\<rparr>) {7})"]
    processes_changed_by_runCommand_and_disposeAll_only
      [of plain "RunCommand (js ''START_CMD_1'') (js ''END_CMD_1'') 7 (js ''sleep 60'')"
        "new_TerminalManager (\<lambda>i. \<lparr>busy = False, lastCommand = []\<rparr>) {7}"]
    processes_changed_by_runCommand_and_disposeAll_only
      [of plain DisposeAll
        "step plain (RunCommand (js ''START_CMD_1'') (js ''END_CMD_1'') 7 (js ''sleep 60''))
           (new_TerminalManager (\<lambda>i. \<lparr>busy = False, lastCommand = []\<rparr>) {7})"]
  by (simp add: new_TerminalManager_def)

text \<open>
  C6 as stated fails: after \<open>echo hello\<close> on session 7 has completed (the end marker was
  handled, completed and continue were emitted, the promise is resolved), the mapping
  still takes 7 to the process.
\<close>

theorem settled_execution_stays_in_processes:
  "promise (executions (terminalData plain 5 (js ''END_CMD_1'' @ [0x0A]) 0
      (snd (runCommand (js ''START_CMD_1'') (js ''END_CMD_1'') 7 (js ''echo hello'')
         (new_TerminalManager (\<lambda>i. \<lparr>busy = False, lastCommand = []\<rparr>) {7})))) 0) = Resolved
   \<and> emitted (process (executions (terminalData plain 5 (js ''END_CMD_1'' @ [0x0A]) 0
      (snd (runCommand (js ''START_CMD_1'') (js ''END_CMD_1'') 7 (js ''echo hello'')
         (new_TerminalManager (\<lambda>i. \<lparr>busy = False, lastCommand = []\<rparr>) {7})))) 0))
       = [Completed, Continue]
   \<and> processes (terminalData plain 5 (js ''END_CMD_1'' @ [0x0A]) 0
      (snd (runCommand (js ''START_CMD_1'') (js ''END_CMD_1'') 7 (js ''echo hello'')
         (new_TerminalManager (\<lambda>i. \<lparr>busy = False, lastCommand = []\<rparr>) {7})))) 7 = Some 0"
proof -
  let ?m0 = "new_TerminalManager (\<lambda>i. \<lparr>busy = False, lastCommand = []\<rparr>) {7}"
  let ?m1 = "snd (runCommand (js ''START_CMD_1'') (js ''END_CMD_1'') 7 (js ''echo hello'') ?m0)"
  let ?d = "js ''END_CMD_1'' @ [0x0A]"
  let ?p = "run (js ''START_CMD_1'') (js ''END_CMD_1'')
      (new_TerminalProcess\<lparr>waitForShellIntegration := False\<rparr>)"
  have rc: "runCommand (js ''START_CMD_1'') (js ''END_CMD_1'') 7 (js ''echo hello'') ?m0 = (0, ?m1)"
    by (simp add: runCommand_def Let_def new_TerminalManager_def)
  note st = runCommand_state [OF rc]
  have a: "\<not> busy (terminals (terminalData plain 5 ?d 0 ?m1) (terminalInfo (executions ?m1 0)))
     \<and> promise (executions (terminalData plain 5 ?d 0 ?m1) 0) = resolve (promise (executions ?m1 0))"
    using example_end_chunk by (intro terminalData_end_fresh) (simp_all add: st run_new)
  have b: "process (executions (terminalData plain 5 ?d 0 ?m1) 0) = onData plain 5 ?d ?p"
    by (simp add: terminalData_def dispatch_frame st)
  have c: "emitted (onData plain 5 ?d ?p) = emitted ?p @ [Completed, Continue]"
    using example_end_chunk by (intro onData_end_fresh) (simp_all add: run_new)
  have d: "processes (terminalData plain 5 ?d 0 ?m1) = (processes ?m0)(7 \<mapsto> 0)"
    by (simp add: terminalData_def dispatch_frame st)
  show ?thesis
    using a by (simp add: b c d st resolve_def run_new)
qed

text \<open>
  C10. After \<open>disposeAll()\<close>, \<open>getTerminals\<close> returns the empty list for both values of
  its argument, \<open>getUnretrievedOutput\<close> returns the empty string for every id, and
  \<open>isProcessHot\<close> returns false for every id, at any time.
\<close>

theorem disposeAll_empties_queries:
  "getTerminals b (disposeAll m) = []
   \<and> fst (TerminalManager_getUnretrievedOutput i (disposeAll m)) = []
   \<and> \<not> isProcessHot now i (disposeAll m)"
  by (simp add: getTerminals_def disposeAll_def TerminalManager_getUnretrievedOutput_def
      isProcessHot_def)

text \<open>
  A manager that owns session 7, busy with \<open>sleep 60\<close>, lists it; after \<open>disposeAll()\<close>
  every query comes back empty.
\<close>

theorem disposeAll_empties_queries_witness:
  "getTerminals True
      ((snd (runCommand (js ''START_CMD_1'') (js ''END_CMD_1'') 7 (js ''sleep 60'')
         (new_TerminalManager (\<lambda>i. \<lparr>busy = False, lastCommand = []\<rparr>) {7})))
       \<lparr>terminalIds := [7]\<rparr>) = [(7, js ''sleep 60'')]
   \<and> getTerminals True (disposeAll
      ((snd (runCommand (js ''START_CMD_1'') (js ''END_CMD_1'') 7 (js ''sleep 60'')
         (new_TerminalManager (\<lambda>i. \<lparr>busy = False, lastCommand = []\<rparr>) {7})))
       \<lparr>terminalIds := [7]\<rparr>)) = []
   \<and> getTerminals False (disposeAll
      ((snd (runCommand (js ''START_CMD_1'') (js ''END_CMD_1'') 7 (js ''sleep 60'')
         (new_TerminalManager (\<lambda>i. \<lparr>busy = False, lastCommand = []\<rparr>) {7})))
       \<lparr>terminalIds := [7]\<rparr>)) = []
   \<and> fst (TerminalManager_getUnretrievedOutput 7 (disposeAll
      ((snd (runCommand (js ''START_CMD_1'') (js ''END_CMD_1'') 7 (js ''sleep 60'')
         (new_TerminalManager (\<lambda>i. \<lparr>busy = False, lastCommand = []\<rparr>) {7})))
       \<lparr>terminalIds := [7]\<rparr>))) = []
   \<and> \<not> isProcessHot 100 7 (disposeAll
      ((snd (runCommand (js ''START_CMD_1'') (js ''END_CMD_1'') 7 (js ''sleep 60'')
         (new_TerminalManager (\<lambda>i. \<lparr>busy = False, lastCommand = []\<rparr>) {7})))
       \<lparr>terminalIds := [7]\<rparr>))"
proof -
  let ?m = "(snd (runCommand (js ''START_CMD_1'') (js ''END_CMD_1'') 7 (js ''sleep 60'')
         (new_TerminalManager (\<lambda>i. \<lparr>busy = False, lastCommand = []\<rparr>) {7})))
       \<lparr>terminalIds := [7]\<rparr>"
  have "getTerminals True ?m = [(7, js ''sleep 60'')]"
    by (simp add: getTerminals_def runCommand_def Let_def new_TerminalManager_def)
  then show ?thesis
    using disposeAll_empties_queries [of True ?m 7 100] disposeAll_empties_queries [of False ?m 7 100]
    by simp
qed

end
